theory Spec2Isabelle
  imports Main "HOL-Library.Sublist"
begin

section \<open>Shared JavaScript notions\<close>

text \<open>
  A JavaScript \<^verbatim>\<open>Error\<close> object, reduced to the two fields the sources read or set.
\<close>

record Error =
  name :: string
  message :: string

text \<open>
  A value that a callback throws or a promise rejects with: an \<^verbatim>\<open>Error\<close> instance, or
  some other value. Of a value that is not an \<^verbatim>\<open>Error\<close> the sources only ever take
  \<^verbatim>\<open>String(value)\<close>: it is given by that string, or, when the conversion itself throws
  (an object without prototype, as \<^verbatim>\<open>Object.create(null)\<close>, or one whose
  \<^verbatim>\<open>toString\<close> throws), by the value the conversion throws.
\<close>

datatype thrown = ErrorInstance Error | OtherValue string | NoStringForm thrown

text \<open>How an awaited promise settles.\<close>

datatype 'a settled = Resolved 'a | Rejected thrown

text \<open>\<^verbatim>\<open>new Error(msg)\<close>\<close>

definition new_Error :: "string \<Rightarrow> Error" where
  "new_Error msg = \<lparr>name = ''Error'', Error.message = msg\<rparr>"

text \<open>
  \<^verbatim>\<open>error instanceof Error ? error : new Error(String(error))\<close>: \<open>Inr\<close> is the
  \<^verbatim>\<open>Error\<close> the expression evaluates to, \<open>Inl\<close> the value it throws.
\<close>

definition toError :: "thrown \<Rightarrow> thrown + Error" where
  "toError v =
     (case v of
        ErrorInstance e \<Rightarrow> Inr e
      | OtherValue text \<Rightarrow> Inr (new_Error text)
      | NoStringForm raised \<Rightarrow> Inl raised)"

text \<open>What \<^verbatim>\<open>String(Object.create(null))\<close> throws.\<close>

definition no_primitive_value :: thrown where
  "no_primitive_value =
     ErrorInstance \<lparr>name = ''TypeError'',
                    Error.message = ''Cannot convert object to primitive value''\<rparr>"

section \<open>Query manager (supabase-query-manager.ts)\<close>

text \<open>
  The values a field of a record can hold, as far as \<^verbatim>\<open>assertNonNull\<close> tells them apart.
\<close>

datatype JsValue = JsNull | JsUndefined | JsString string | JsNumber int | JsBoolean bool

text \<open>
  A \<^verbatim>\<open>Record<string, unknown>\<close>: its own properties in insertion order. \<^verbatim>\<open>input[fieldId]\<close>
  is the property's value, \<^verbatim>\<open>undefined\<close> where the record has no such property
  (properties inherited from \<^verbatim>\<open>Object.prototype\<close> are left out).
\<close>

type_synonym row = "(string \<times> JsValue) list"

definition index :: "row \<Rightarrow> string \<Rightarrow> JsValue" where
  "index input fieldId = (case map_of input fieldId of None \<Rightarrow> JsUndefined | Some v \<Rightarrow> v)"

text \<open>\<^verbatim>\<open>assertNonNull\<close>: \<open>Inl\<close> is the \<^verbatim>\<open>Error\<close> thrown.\<close>

definition assertNonNull :: "JsValue \<Rightarrow> string \<Rightarrow> Error + unit" where
  "assertNonNull v fieldName =
     (if v = JsNull \<or> v = JsUndefined
      then Inl (new_Error (fieldName @ '' must be non-null''))
      else Inr ())"

text \<open>
  The one query \<^verbatim>\<open>update\<close> builds:
  \<^verbatim>\<open>from(collection).update(input).eq(fieldId, idValue).select()\<close>.
\<close>

datatype query = UpdateQuery string row string JsValue

record PostgrestError =
  message :: string

record QueryResponse =
  data :: "row list option"
  error :: "PostgrestError option"

text \<open>
  The injected \<^verbatim>\<open>ISupabaseClient\<close>: what awaiting a query gives, and what it does to the
  backend's store. The backend is the store together with the queries issued so far.
\<close>

type_synonym 'b ISupabaseClient = "query \<Rightarrow> 'b \<Rightarrow> QueryResponse settled \<times> 'b"

record 'b Backend =
  store :: 'b
  issued :: "query list"

definition issue :: "'b ISupabaseClient \<Rightarrow> query \<Rightarrow> 'b Backend \<Rightarrow> QueryResponse settled \<times> 'b Backend" where
  "issue supabase q w =
     (case supabase q (store w) of
        (r, b) \<Rightarrow> (r, \<lparr>store = b, issued = issued w @ [q]\<rparr>))"

text \<open>\<^verbatim>\<open>(data?.[0] as T) ?? null\<close>\<close>

fun first_or_null :: "row list option \<Rightarrow> row option" where
  "first_or_null None = None"
| "first_or_null (Some []) = None"
| "first_or_null (Some (r # _)) = Some r"

text \<open>
  \<^verbatim>\<open>SupabaseQueryManager.update\<close>. It is an \<^verbatim>\<open>async\<close> method: \<open>Inl\<close> is the value its
  promise rejects with, \<open>Inr\<close> the value it resolves to.
\<close>

definition SupabaseQueryManager_update ::
  "'b ISupabaseClient \<Rightarrow> string \<Rightarrow> row \<Rightarrow> string \<Rightarrow> 'b Backend
     \<Rightarrow> (thrown + row option) \<times> 'b Backend" where
  "SupabaseQueryManager_update supabase collection input fieldId w =
     (let idValue = index input fieldId in
      case assertNonNull idValue (''update(): '' @ [CHR 0x27] @ fieldId @ [CHR 0x27]) of
        Inl e \<Rightarrow> (Inl (ErrorInstance e), w)
      | Inr _ \<Rightarrow>
          (case issue supabase (UpdateQuery collection input fieldId idValue) w of
             (Rejected v, w') \<Rightarrow> (Inl v, w')
           | (Resolved response, w') \<Rightarrow>
               (case error response of
                  Some err \<Rightarrow> (Inl (ErrorInstance (new_Error (message err))), w')
                | None \<Rightarrow> (Inr (first_or_null (data response)), w'))))"

text \<open>
  A client for examples: it answers every update with the input as the one updated row
  and keeps no store. \<open>no_queries\<close> is its backend before any query.
\<close>

definition echo_client :: "unit ISupabaseClient" where
  "echo_client q b =
     (case q of UpdateQuery collection input fieldId idValue \<Rightarrow>
        (Resolved \<lparr>data = Some [input], QueryResponse.error = None\<rparr>, b))"

definition no_queries :: "unit Backend" where
  "no_queries = \<lparr>store = (), issued = []\<rparr>"

section \<open>Poller (poller.ts)\<close>

text \<open>
  A timer handle is an object whose \<^verbatim>\<open>cancel\<close> clears one interval of the runtime; it is
  identified by that interval's id. An object is truthy, so \<^verbatim>\<open>if (this.timer)\<close> tests
  for \<^verbatim>\<open>null\<close>.
\<close>

datatype TimerHandle = TimerHandle nat

text \<open>
  The timer provider, as \<^verbatim>\<open>createTimerProvider\<close> builds it over the runtime's
  \<^verbatim>\<open>setInterval\<close> and \<^verbatim>\<open>clearInterval\<close>: the intervals set through it and not yet
  cleared (id and period, in the order they were set) and the next fresh id. Every
  interval of a Poller's provider carries that Poller's callback.
\<close>

record TimerProvider =
  nextId :: nat
  intervals :: "(nat \<times> nat) list"

definition DEFAULT_TIMER_PROVIDER :: TimerProvider where
  "DEFAULT_TIMER_PROVIDER = \<lparr>nextId = 0, intervals = []\<rparr>"

definition setInterval :: "nat \<Rightarrow> TimerProvider \<Rightarrow> TimerHandle \<times> TimerProvider" where
  "setInterval intervalMs tp =
     (TimerHandle (nextId tp),
      tp\<lparr>nextId := Suc (nextId tp), intervals := intervals tp @ [(nextId tp, intervalMs)]\<rparr>)"

fun clearInterval :: "TimerHandle \<Rightarrow> TimerProvider \<Rightarrow> TimerProvider" where
  "clearInterval (TimerHandle i) tp = tp\<lparr>intervals := filter (\<lambda>(j, _). j \<noteq> i) (intervals tp)\<rparr>"

definition DEFAULT_INTERVAL_MS :: nat where
  "DEFAULT_INTERVAL_MS = 10000"

text \<open>
  \<^verbatim>\<open>refreshFn\<close> is given by what its n-th invocation does: \<open>None\<close> when it returns (or
  its promise fulfils), \<open>Some v\<close> when it throws v (or its promise rejects with v).
  \<^verbatim>\<open>onError\<close>, when present, is given by what a call does: \<open>None\<close> when it returns,
  \<open>Some v\<close> when it throws v. The configuration's \<^verbatim>\<open>timerProvider\<close> is not a field
  here: an injected provider is taken to be one of the kind above that no interval has
  been set through yet, as the default one and the one of the repository's tests are.
\<close>

record PollerConfig =
  cfg_refreshFn :: "nat \<Rightarrow> thrown option"
  cfg_intervalMs :: "nat option"
  cfg_onError :: "(Error \<Rightarrow> thrown option) option"

record Poller =
  timer :: "TimerHandle option"
  isRunning :: bool
  refreshFn :: "nat \<Rightarrow> thrown option"
  intervalMs :: nat
  timerProvider :: TimerProvider
  onError :: "(Error \<Rightarrow> thrown option) option"

definition new_Poller :: "PollerConfig \<Rightarrow> Poller" where
  "new_Poller config =
     \<lparr>timer = None, isRunning = False,
      refreshFn = cfg_refreshFn config,
      intervalMs = (case cfg_intervalMs config of None \<Rightarrow> DEFAULT_INTERVAL_MS | Some ms \<Rightarrow> ms),
      timerProvider = DEFAULT_TIMER_PROVIDER,
      onError = cfg_onError config\<rparr>"

definition scheduleNext :: "Poller \<Rightarrow> Poller" where
  "scheduleNext p =
     (if \<not> isRunning p then p
      else case setInterval (intervalMs p) (timerProvider p) of
             (h, tp) \<Rightarrow> p\<lparr>timer := Some h, timerProvider := tp\<rparr>)"

definition start :: "Poller \<Rightarrow> Poller" where
  "start p = (if \<not> isRunning p then scheduleNext (p\<lparr>isRunning := True\<rparr>) else p)"

definition stop :: "Poller \<Rightarrow> Poller" where
  "stop p =
     (case timer p of
        Some h \<Rightarrow> p\<lparr>timerProvider := clearInterval h (timerProvider p), timer := None,
                    isRunning := False\<rparr>
      | None \<Rightarrow> p)"

definition getIsRunning :: "Poller \<Rightarrow> bool" where
  "getIsRunning p = isRunning p"

text \<open>
  What running the Poller's callbacks leaves behind outside the Poller: how often
  \<^verbatim>\<open>refreshFn\<close> was invoked, the errors \<^verbatim>\<open>onError\<close> was called with, and the
  rejections of the callback's own promise, which \<^verbatim>\<open>void\<close> leaves without a handler.
\<close>

record Trace =
  refreshCalls :: nat
  onErrorCalls :: "Error list"
  unhandledRejections :: "thrown list"

definition no_trace :: Trace where
  "no_trace = \<lparr>refreshCalls = 0, onErrorCalls = [], unhandledRejections = []\<rparr>"

text \<open>
  The callback given to \<^verbatim>\<open>setInterval\<close>, run from its call of \<^verbatim>\<open>refreshFn\<close> to the end
  of its \<^verbatim>\<open>catch\<close> block. It reads \<^verbatim>\<open>refreshFn\<close> and \<^verbatim>\<open>onError\<close> only, which no
  method assigns, so what runs between the call and the \<^verbatim>\<open>catch\<close> does not change its
  effect. The first component is what the callback throws to the timer that called it:
  nothing, since the body is an \<^verbatim>\<open>async\<close> function called under \<^verbatim>\<open>void\<close>. What
  the \<^verbatim>\<open>catch\<close> block itself throws, in the conversion or in \<^verbatim>\<open>onError\<close>, rejects the
  promise of that function, which has no handler.
\<close>

definition intervalCallback :: "Poller \<Rightarrow> Trace \<Rightarrow> thrown option \<times> Trace" where
  "intervalCallback p tr =
     (let tr1 = tr\<lparr>refreshCalls := Suc (refreshCalls tr)\<rparr> in
      case refreshFn p (refreshCalls tr) of
        None \<Rightarrow> (None, tr1)
      | Some thrown_value \<Rightarrow>
          (case toError thrown_value of
             Inl raised \<Rightarrow>
               (None, tr1\<lparr>unhandledRejections := unhandledRejections tr1 @ [raised]\<rparr>)
           | Inr err \<Rightarrow>
               (case onError p of
                  None \<Rightarrow> (None, tr1)
                | Some callback \<Rightarrow>
                    (case callback err of
                       None \<Rightarrow> (None, tr1\<lparr>onErrorCalls := onErrorCalls tr1 @ [err]\<rparr>)
                     | Some v \<Rightarrow>
                         (None, tr1\<lparr>onErrorCalls := onErrorCalls tr1 @ [err],
                                    unhandledRejections := unhandledRejections tr1 @ [v]\<rparr>)))))"

text \<open>One period elapses: the provider calls the callback of each live interval.\<close>

definition tick :: "Poller \<Rightarrow> Trace \<Rightarrow> Trace" where
  "tick p tr = fold (\<lambda>_ t. snd (intervalCallback p t)) (intervals (timerProvider p)) tr"

datatype poller_call = Start | Stop | Tick

fun poller_step :: "poller_call \<Rightarrow> Poller \<times> Trace \<Rightarrow> Poller \<times> Trace" where
  "poller_step Start (p, tr) = (start p, tr)"
| "poller_step Stop (p, tr) = (stop p, tr)"
| "poller_step Tick (p, tr) = (p, tick p tr)"

fun poller_run :: "poller_call list \<Rightarrow> Poller \<times> Trace \<Rightarrow> Poller \<times> Trace" where
  "poller_run [] w = w"
| "poller_run (c # cs) w = poller_run cs (poller_step c w)"

text \<open>The handles of the provider's live intervals.\<close>

definition liveHandles :: "Poller \<Rightarrow> TimerHandle list" where
  "liveHandles p = map (\<lambda>(i, _). TimerHandle i) (intervals (timerProvider p))"

text \<open>
  The configuration of the repository's Poller test "should convert non-Error objects to
  Error", with a refresh operation that rejects once: the first invocation rejects with
  a string, the later ones fulfil; \<^verbatim>\<open>onError\<close> is an observer that returns.
\<close>

definition rejecting_once :: PollerConfig where
  "rejecting_once =
     \<lparr>cfg_refreshFn = (\<lambda>n. if n = 0 then Some (OtherValue ''string error'') else None),
      cfg_intervalMs = Some 1000,
      cfg_onError = Some (\<lambda>_. None)\<rparr>"

text \<open>
  The same, with a refresh operation whose first invocation rejects with
  \<^verbatim>\<open>Object.create(null)\<close>, as in
  \<^verbatim>\<open>refreshFn: () => Promise.reject(Object.create(null))\<close>.
\<close>

definition rejecting_without_string_form :: PollerConfig where
  "rejecting_without_string_form =
     \<lparr>cfg_refreshFn = (\<lambda>n. if n = 0 then Some (NoStringForm no_primitive_value) else None),
      cfg_intervalMs = Some 1000,
      cfg_onError = Some (\<lambda>_. None)\<rparr>"

section \<open>Network monitor (network-monitor.ts)\<close>

datatype NetworkConnectionType =
  unknown | none | wifi | cellular | bluetooth | ethernet | wimax | vpn | other

record NetInfoState =
  isConnected :: "bool option"
  type :: NetworkConnectionType
  isInternetReachable :: "bool option"

record NetworkState =
  isConnected :: bool
  connectionType :: NetworkConnectionType
  isInternetReachable :: "bool option"

text \<open>
  The injected \<^verbatim>\<open>INetInfo\<close>: how often \<^verbatim>\<open>fetch\<close> was called, and the listeners
  registered with \<^verbatim>\<open>addEventListener\<close> and not yet unregistered, each under a fresh id.
  The function \<^verbatim>\<open>addEventListener\<close> returns unregisters the listener of that id.
\<close>

record INetInfo =
  fetchCalls :: nat
  listeners :: "nat list"
  nextListener :: nat

definition fetch :: "INetInfo \<Rightarrow> INetInfo" where
  "fetch ni = ni\<lparr>fetchCalls := Suc (fetchCalls ni)\<rparr>"

definition addEventListener :: "INetInfo \<Rightarrow> nat \<times> INetInfo" where
  "addEventListener ni =
     (nextListener ni,
      ni\<lparr>listeners := listeners ni @ [nextListener ni], nextListener := Suc (nextListener ni)\<rparr>)"

definition removeEventListener :: "nat \<Rightarrow> INetInfo \<Rightarrow> INetInfo" where
  "removeEventListener i ni = ni\<lparr>listeners := filter (\<lambda>j. j \<noteq> i) (listeners ni)\<rparr>"

record NetworkMonitor =
  netInfo :: INetInfo
  unsubscribe :: "nat option"
  state :: NetworkState

definition new_NetworkMonitor :: NetworkMonitor where
  "new_NetworkMonitor =
     \<lparr>netInfo = \<lparr>fetchCalls = 0, listeners = [], nextListener = 0\<rparr>,
      unsubscribe = None,
      state = \<lparr>isConnected = False, connectionType = unknown, isInternetReachable = None\<rparr>\<rparr>"

definition updateState :: "NetInfoState \<Rightarrow> NetworkMonitor \<Rightarrow> NetworkMonitor" where
  "updateState s m =
     m\<lparr>state := (state m)
         \<lparr>isConnected := (case NetInfoState.isConnected s of None \<Rightarrow> False | Some c \<Rightarrow> c),
          connectionType := type s,
          isInternetReachable := NetInfoState.isInternetReachable s\<rparr>\<rparr>"

text \<open>
  \<^verbatim>\<open>startMonitoring\<close> is an \<^verbatim>\<open>async\<close> method with one \<^verbatim>\<open>await\<close>. A call runs up to
  the \<^verbatim>\<open>await\<close> at once: it returns at the guard, or calls \<^verbatim>\<open>fetch\<close> and suspends.
\<close>

datatype start_progress = Returned | AwaitingFetch

definition startMonitoring_call :: "NetworkMonitor \<Rightarrow> start_progress \<times> NetworkMonitor" where
  "startMonitoring_call m =
     (if unsubscribe m \<noteq> None then (Returned, m)
      else (AwaitingFetch, m\<lparr>netInfo := fetch (netInfo m)\<rparr>))"

text \<open>
  A suspended call resumes when the promise of \<^verbatim>\<open>fetch\<close> settles. \<open>Inl\<close> is the value
  the promise of \<^verbatim>\<open>startMonitoring\<close> rejects with.
\<close>

definition startMonitoring_resume ::
  "NetInfoState settled \<Rightarrow> NetworkMonitor \<Rightarrow> (thrown + unit) \<times> NetworkMonitor" where
  "startMonitoring_resume fetched m =
     (case fetched of
        Rejected v \<Rightarrow> (Inl v, m)
      | Resolved initialState \<Rightarrow>
          (let m1 = updateState initialState m in
           case addEventListener (netInfo m1) of
             (l, ni) \<Rightarrow> (Inr (), m1\<lparr>netInfo := ni, unsubscribe := Some l\<rparr>)))"

text \<open>A call that runs to its end with nothing else running in between.\<close>

definition NetworkMonitor_startMonitoring ::
  "NetInfoState settled \<Rightarrow> NetworkMonitor \<Rightarrow> (thrown + unit) \<times> NetworkMonitor" where
  "NetworkMonitor_startMonitoring fetched m =
     (case startMonitoring_call m of
        (Returned, m') \<Rightarrow> (Inr (), m')
      | (AwaitingFetch, m') \<Rightarrow> startMonitoring_resume fetched m')"

definition NetworkMonitor_stopMonitoring :: "NetworkMonitor \<Rightarrow> NetworkMonitor" where
  "NetworkMonitor_stopMonitoring m =
     (case unsubscribe m of
        Some l \<Rightarrow> m\<lparr>netInfo := removeEventListener l (netInfo m), unsubscribe := None\<rparr>
      | None \<Rightarrow> m)"

text \<open>
  Two calls, the second made once the first has run to its end, and two calls of which
  the second is made while the first still awaits its \<^verbatim>\<open>fetch\<close> (as in
  \<^verbatim>\<open>void m.startMonitoring(); void m.startMonitoring()\<close>); the promises of \<^verbatim>\<open>fetch\<close>
  settle in the order of the calls.
\<close>

definition start_twice_in_turn ::
  "NetInfoState settled \<Rightarrow> NetInfoState settled \<Rightarrow> NetworkMonitor \<Rightarrow> NetworkMonitor" where
  "start_twice_in_turn fetched1 fetched2 m =
     snd (NetworkMonitor_startMonitoring fetched2 (snd (NetworkMonitor_startMonitoring fetched1 m)))"

definition start_twice_overlapping ::
  "NetInfoState settled \<Rightarrow> NetInfoState settled \<Rightarrow> NetworkMonitor \<Rightarrow> NetworkMonitor" where
  "start_twice_overlapping fetched1 fetched2 m =
     (case startMonitoring_call m of
        (progress1, m1) \<Rightarrow>
          (case startMonitoring_call m1 of
             (progress2, m2) \<Rightarrow>
               (let m3 = (if progress1 = AwaitingFetch
                          then snd (startMonitoring_resume fetched1 m2) else m2)
                in if progress2 = AwaitingFetch
                   then snd (startMonitoring_resume fetched2 m3) else m3)))"

text \<open>The probe result the repository's network-monitor tests start from.\<close>

definition wifiState :: NetInfoState where
  "wifiState =
     \<lparr>NetInfoState.isConnected = Some True, type = wifi,
      NetInfoState.isInternetReachable = Some True\<rparr>"

section \<open>Channel monitor (channel-monitor.ts)\<close>

datatype ChannelStatus = INITIAL | SUBSCRIBED | CLOSED | CHANNEL_ERROR | TIMED_OUT

text \<open>The string value of each member of the enum, as a template literal prints it.\<close>

fun ChannelStatus_value :: "ChannelStatus \<Rightarrow> string" where
  "ChannelStatus_value INITIAL = ''INITIAL''"
| "ChannelStatus_value SUBSCRIBED = ''SUBSCRIBED''"
| "ChannelStatus_value CLOSED = ''CLOSED''"
| "ChannelStatus_value CHANNEL_ERROR = ''CHANNEL_ERROR''"
| "ChannelStatus_value TIMED_OUT = ''TIMED_OUT''"

datatype EventType = INSERT | UPDATE | DELETE

record 'row RealtimePayload =
  commit_timestamp :: string
  errors :: "string list option"
  eventType :: EventType
  new :: "'row option"
  old :: "'row option"
  schema :: string
  table :: string

record 'row LastMessageInfo =
  message :: "'row RealtimePayload"
  receivedAt :: int

text \<open>
  The \<^verbatim>\<open>code\<close> of a \<^verbatim>\<open>ChannelError\<close> is one of the two failing statuses or the
  string \<^verbatim>\<open>'UNKNOWN'\<close>, the constructor's default.
\<close>

datatype ChannelErrorCode = StatusCode ChannelStatus | UNKNOWN

record ChannelError = Error +
  code :: ChannelErrorCode

definition new_ChannelError :: "string \<Rightarrow> ChannelErrorCode \<Rightarrow> ChannelError" where
  "new_ChannelError msg c = \<lparr>name = ''ChannelError'', Error.message = msg, code = c\<rparr>"

text \<open>
  The object held by \<^verbatim>\<open>state$\<close>. At run time it is a plain object with three fields
  that \<^verbatim>\<open>assign\<close> overwrites field by field, so it is a record here; the discriminated
  union the source declares for it is the predicate \<open>declared_shape\<close> below.
\<close>

record 'row ChannelMonitorState =
  status :: ChannelStatus
  lastMessage :: "'row LastMessageInfo option"
  error :: "ChannelError option"

text \<open>The four alternatives of the declared type \<^verbatim>\<open>ChannelMonitorState\<close>.\<close>

definition declared_shape :: "'row ChannelMonitorState \<Rightarrow> bool" where
  "declared_shape st =
     (case status st of
        INITIAL \<Rightarrow> lastMessage st = None \<and> error st = None
      | SUBSCRIBED \<Rightarrow> error st = None
      | CLOSED \<Rightarrow> lastMessage st = None \<and> error st = None
      | CHANNEL_ERROR \<Rightarrow> lastMessage st = None \<and> error st \<noteq> None
      | TIMED_OUT \<Rightarrow> lastMessage st = None \<and> error st \<noteq> None)"

text \<open>The value \<^verbatim>\<open>state$\<close> is created with.\<close>

definition initial_state :: "'row ChannelMonitorState" where
  "initial_state = \<lparr>status = INITIAL, lastMessage = None, error = None\<rparr>"

text \<open>The callback handed to \<^verbatim>\<open>channel.subscribe\<close>.\<close>

definition statusCallback ::
  "ChannelStatus \<Rightarrow> 'row ChannelMonitorState \<Rightarrow> 'row ChannelMonitorState" where
  "statusCallback s st =
     (if s = CHANNEL_ERROR \<or> s = TIMED_OUT
      then st\<lparr>status := s, lastMessage := None,
              error := Some (new_ChannelError (''Channel status: '' @ ChannelStatus_value s)
                                              (StatusCode s))\<rparr>
      else st\<lparr>status := s, lastMessage := None, error := None\<rparr>)"

text \<open>
  The callback handed to \<^verbatim>\<open>channel.on('postgres_changes', ...)\<close>. Its second argument
  is the value \<^verbatim>\<open>Date.now()\<close> returns when the callback runs.
\<close>

definition dataCallback ::
  "'row RealtimePayload \<Rightarrow> int \<Rightarrow> 'row ChannelMonitorState \<Rightarrow> 'row ChannelMonitorState" where
  "dataCallback payload now st =
     st\<lparr>lastMessage := Some \<lparr>message = payload, receivedAt = now\<rparr>, error := None\<rparr>"

text \<open>The tail of \<^verbatim>\<open>startMonitoring\<close>: the handle's current status written into the state.\<close>

definition initialStatus ::
  "ChannelStatus \<Rightarrow> 'row ChannelMonitorState \<Rightarrow> 'row ChannelMonitorState" where
  "initialStatus s st =
     (if s = CHANNEL_ERROR \<or> s = TIMED_OUT
      then st\<lparr>status := s, lastMessage := None,
              error := Some (new_ChannelError (''Initial channel status: '' @ ChannelStatus_value s)
                                              (StatusCode s))\<rparr>
      else st\<lparr>status := s, lastMessage := None, error := None\<rparr>)"

text \<open>
  \<^verbatim>\<open>startMonitoring\<close> registers the two callbacks with the handle and then reconciles the
  handle's \<^verbatim>\<open>state\<close>, its first argument here. What the registered callbacks do when the
  transport calls them is \<open>deliver\<close>.
\<close>

definition ChannelMonitor_startMonitoring ::
  "ChannelStatus \<Rightarrow> 'row ChannelMonitorState \<Rightarrow> 'row ChannelMonitorState" where
  "ChannelMonitor_startMonitoring channel_state st = initialStatus channel_state st"

datatype 'row channel_event =
    StatusChange ChannelStatus
  | DataEvent "'row RealtimePayload" int

fun deliver :: "'row channel_event \<Rightarrow> 'row ChannelMonitorState \<Rightarrow> 'row ChannelMonitorState" where
  "deliver (StatusChange s) st = statusCallback s st"
| "deliver (DataEvent payload now) st = dataCallback payload now st"

text \<open>Callbacks are applied in the order the transport delivers them.\<close>

fun deliver_all ::
  "'row channel_event list \<Rightarrow> 'row ChannelMonitorState \<Rightarrow> 'row ChannelMonitorState" where
  "deliver_all [] st = st"
| "deliver_all (e # es) st = deliver_all es (deliver e st)"

text \<open>The payload the repository's channel-monitor test delivers.\<close>

definition mockPayload :: "unit RealtimePayload" where
  "mockPayload =
     \<lparr>commit_timestamp = ''2023-01-01T00:00:00Z'', errors = None, eventType = INSERT,
      new = None, old = None, schema = ''public'', table = ''test''\<rparr>"

text \<open>
  \<^verbatim>\<open>stopMonitoring\<close> calls \<^verbatim>\<open>channel.unsubscribe()\<close> and discards the promise with
  \<^verbatim>\<open>void\<close>: no handler is attached, the monitor's state is not touched, and a rejection
  of that promise is an unhandled rejection. The result is the state and the rejections
  left unhandled.
\<close>

definition ChannelMonitor_stopMonitoring ::
  "string settled \<Rightarrow> 'row ChannelMonitorState \<Rightarrow> 'row ChannelMonitorState \<times> thrown list" where
  "ChannelMonitor_stopMonitoring unsubscribed st =
     (st, case unsubscribed of Resolved _ \<Rightarrow> [] | Rejected e \<Rightarrow> [e])"

section \<open>Health (computeChannelHealth)\<close>

text \<open>
  The body of the \<^verbatim>\<open>computed\<close>: the first argument is the value of \<^verbatim>\<open>Date.now()\<close> at
  the time of evaluation. A \<^verbatim>\<open>lastMessage\<close> object is truthy, \<^verbatim>\<open>null\<close> is not.
\<close>

definition computeChannelHealth ::
  "int \<Rightarrow> 'row ChannelMonitorState \<Rightarrow> NetworkState \<Rightarrow> bool" where
  "computeChannelHealth now channelState networkState =
     (let isSubscribed = (status channelState = SUBSCRIBED);
          hasRecentActivity =
            (case lastMessage channelState of
               Some lm \<Rightarrow> now - receivedAt lm < 30000
             | None \<Rightarrow> False)
      in isSubscribed
         \<and> (isConnected networkState \<or> isInternetReachable networkState \<noteq> Some False)
         \<and> hasRecentActivity)"

section \<open>Helper facts about the channel callbacks\<close>

lemma statusCallback_fields:
  "status (statusCallback s st) = s"
  "lastMessage (statusCallback s st) = None"
  "error (statusCallback s st) =
     (if s = CHANNEL_ERROR \<or> s = TIMED_OUT
      then Some (new_ChannelError (''Channel status: '' @ ChannelStatus_value s) (StatusCode s))
      else None)"
  by (simp_all add: statusCallback_def)

lemma initialStatus_fields:
  "status (initialStatus s st) = s"
  "lastMessage (initialStatus s st) = None"
  "error (initialStatus s st) =
     (if s = CHANNEL_ERROR \<or> s = TIMED_OUT
      then Some (new_ChannelError (''Initial channel status: '' @ ChannelStatus_value s)
                                  (StatusCode s))
      else None)"
  by (simp_all add: initialStatus_def)

lemma dataCallback_fields:
  "status (dataCallback p now st) = status st"
  "lastMessage (dataCallback p now st) = Some \<lparr>message = p, receivedAt = now\<rparr>"
  "error (dataCallback p now st) = None"
  by (simp_all add: dataCallback_def)

lemma deliver_all_snoc: "deliver_all (es @ [e]) st = deliver e (deliver_all es st)"
  by (induction es arbitrary: st) simp_all

section \<open>Health: the three conditions\<close>

text \<open>
  C1. For every channel state and network state, health is true exactly when the status
  is SUBSCRIBED, the network is connected or its reachability is not known to be false,
  and there is a last message received less than 30000 ms before now. With status
  SUBSCRIBED, a message received now, isConnected false and reachability unknown the
  result is true; making any one of the three conditions false makes the result false.
\<close>

theorem computeChannelHealth_iff:
  "computeChannelHealth now cs ns =
     (status cs = SUBSCRIBED
      \<and> (isConnected ns \<or> isInternetReachable ns \<noteq> Some False)
      \<and> (\<exists>lm. lastMessage cs = Some lm \<and> now - receivedAt lm < 30000))
   \<and> computeChannelHealth now
         \<lparr>status = SUBSCRIBED, lastMessage = Some \<lparr>message = p, receivedAt = now\<rparr>, error = None\<rparr>
         \<lparr>isConnected = False, connectionType = ct, isInternetReachable = None\<rparr>
   \<and> (s \<noteq> SUBSCRIBED \<longrightarrow> \<not> computeChannelHealth now (cs\<lparr>status := s\<rparr>) ns)
   \<and> \<not> computeChannelHealth now cs (ns\<lparr>isConnected := False, isInternetReachable := Some False\<rparr>)
   \<and> \<not> computeChannelHealth now (cs\<lparr>lastMessage := None\<rparr>) ns
   \<and> (30000 \<le> now - t \<longrightarrow>
        \<not> computeChannelHealth now (cs\<lparr>lastMessage := Some \<lparr>message = p, receivedAt = t\<rparr>\<rparr>) ns)"
  by (auto simp: computeChannelHealth_def split: option.splits)

theorem computeChannelHealth_iff_witness:
  "CLOSED \<noteq> SUBSCRIBED \<and> (30000::int) \<le> 100000 - 69000
   \<and> computeChannelHealth 100000
        \<lparr>status = SUBSCRIBED, lastMessage = Some \<lparr>message = mockPayload, receivedAt = 100000\<rparr>,
         error = None\<rparr>
        \<lparr>isConnected = False, connectionType = unknown, isInternetReachable = None\<rparr>
   \<and> \<not> computeChannelHealth 100000
        \<lparr>status = CLOSED, lastMessage = Some \<lparr>message = mockPayload, receivedAt = 100000\<rparr>,
         error = None\<rparr>
        \<lparr>isConnected = False, connectionType = unknown, isInternetReachable = None\<rparr>
   \<and> \<not> computeChannelHealth 100000
        \<lparr>status = SUBSCRIBED, lastMessage = Some \<lparr>message = mockPayload, receivedAt = 69000\<rparr>,
         error = None\<rparr>
        \<lparr>isConnected = False, connectionType = unknown, isInternetReachable = None\<rparr>"
  using computeChannelHealth_iff
    [where now = 100000 and s = CLOSED and t = 69000 and p = mockPayload and ct = unknown
       and cs = "\<lparr>status = SUBSCRIBED,
                  lastMessage = Some \<lparr>message = mockPayload, receivedAt = 100000\<rparr>,
                  error = None\<rparr>"
       and ns = "\<lparr>isConnected = False, connectionType = unknown, isInternetReachable = None\<rparr>"]
  by simp

section \<open>Channel monitor: what the callbacks leave in the state\<close>

text \<open>
  C4. After any sequence of callbacks, a status-change callback with CHANNEL_ERROR or
  TIMED_OUT leaves a state whose error is present with code equal to that status and
  whose lastMessage is null; a status-change callback with any other status leaves a
  state with null error and null lastMessage.
\<close>

theorem statusCallback_error_and_message:
  "(s = CHANNEL_ERROR \<or> s = TIMED_OUT \<longrightarrow>
      (\<exists>e. error (deliver_all (evs @ [StatusChange s]) (ChannelMonitor_startMonitoring s0 st0)) = Some e
           \<and> code e = StatusCode s)
      \<and> lastMessage (deliver_all (evs @ [StatusChange s]) (ChannelMonitor_startMonitoring s0 st0)) = None)
   \<and> (s \<noteq> CHANNEL_ERROR \<and> s \<noteq> TIMED_OUT \<longrightarrow>
      error (deliver_all (evs @ [StatusChange s]) (ChannelMonitor_startMonitoring s0 st0)) = None
      \<and> lastMessage (deliver_all (evs @ [StatusChange s]) (ChannelMonitor_startMonitoring s0 st0)) = None)"
  by (simp add: deliver_all_snoc statusCallback_fields new_ChannelError_def)

theorem statusCallback_error_and_message_witness:
  "(\<exists>e. error (deliver_all ([StatusChange SUBSCRIBED, DataEvent mockPayload 5] @ [StatusChange TIMED_OUT])
                 (ChannelMonitor_startMonitoring INITIAL initial_state)) = Some e
        \<and> code e = StatusCode TIMED_OUT)
   \<and> lastMessage (deliver_all ([StatusChange SUBSCRIBED, DataEvent mockPayload 5] @ [StatusChange TIMED_OUT])
                 (ChannelMonitor_startMonitoring INITIAL initial_state)) = None
   \<and> error (deliver_all ([StatusChange TIMED_OUT, DataEvent mockPayload 5] @ [StatusChange CLOSED])
                 (ChannelMonitor_startMonitoring INITIAL initial_state)) = None
   \<and> lastMessage (deliver_all ([StatusChange TIMED_OUT, DataEvent mockPayload 5] @ [StatusChange CLOSED])
                 (ChannelMonitor_startMonitoring INITIAL initial_state)) = None"
  using statusCallback_error_and_message
      [of TIMED_OUT "[StatusChange SUBSCRIBED, DataEvent mockPayload 5]" INITIAL initial_state]
    statusCallback_error_and_message
      [of CLOSED "[StatusChange TIMED_OUT, DataEvent mockPayload 5]" INITIAL initial_state]
  by simp

text \<open>
  C7. A data-event callback with payload p leaves the status as it was, clears the
  error, and sets lastMessage to p with a receipt time that is the clock reading of the
  callback, hence not before a reading taken just before the callback fired (the clock
  not running backwards between the two readings).
\<close>

theorem dataCallback_frame:
  "t0 \<le> now \<Longrightarrow>
     status (dataCallback p now st) = status st
     \<and> error (dataCallback p now st) = None
     \<and> (\<exists>t. lastMessage (dataCallback p now st) = Some \<lparr>message = p, receivedAt = t\<rparr> \<and> t0 \<le> t)"
  by (simp add: dataCallback_fields)

theorem dataCallback_frame_witness:
  "(1700000000000::int) \<le> 1700000000003
   \<and> status (dataCallback mockPayload 1700000000003 (statusCallback TIMED_OUT initial_state))
       = TIMED_OUT
   \<and> error (dataCallback mockPayload 1700000000003 (statusCallback TIMED_OUT initial_state)) = None
   \<and> (\<exists>t. lastMessage (dataCallback mockPayload 1700000000003
                          (statusCallback TIMED_OUT initial_state))
            = Some \<lparr>message = mockPayload, receivedAt = t\<rparr> \<and> 1700000000000 \<le> t)"
  using dataCallback_frame
    [of 1700000000000 1700000000003 mockPayload "statusCallback TIMED_OUT initial_state"]
  by (simp add: statusCallback_fields)

text \<open>
  C6, as the spec states it: the state left by the initial reconciliation on a status s
  equals the state the status-change callback leaves on s, error message included.
  It fails on the two failing statuses, where the messages differ.
\<close>

theorem initialStatus_differs_from_statusCallback:
  "initialStatus CHANNEL_ERROR (initial_state :: unit ChannelMonitorState)
     \<noteq> statusCallback CHANNEL_ERROR initial_state
   \<and> map_option Error.message (error (initialStatus CHANNEL_ERROR (initial_state :: unit ChannelMonitorState)))
       = Some ''Initial channel status: CHANNEL_ERROR''
   \<and> map_option Error.message (error (statusCallback CHANNEL_ERROR (initial_state :: unit ChannelMonitorState)))
       = Some ''Channel status: CHANNEL_ERROR''"
  by (simp add: initialStatus_def statusCallback_def initial_state_def new_ChannelError_def)

text \<open>
  C6, amended: the initial reconciliation and the status-change callback leave the same
  status, the same (null) lastMessage and an error that is present in the same cases
  with the same code; for a status other than CHANNEL_ERROR and TIMED_OUT the two states
  are equal; for those two the messages are "Initial channel status: s" and
  "Channel status: s".
\<close>

theorem initialStatus_mirrors_statusCallback:
  "status (initialStatus s st) = status (statusCallback s st)
   \<and> lastMessage (initialStatus s st) = lastMessage (statusCallback s st)
   \<and> map_option code (error (initialStatus s st)) = map_option code (error (statusCallback s st))
   \<and> map_option name (error (initialStatus s st)) = map_option name (error (statusCallback s st))
   \<and> (if s = CHANNEL_ERROR \<or> s = TIMED_OUT
      then map_option Error.message (error (initialStatus s st))
             = Some (''Initial channel status: '' @ ChannelStatus_value s)
         \<and> map_option Error.message (error (statusCallback s st))
             = Some (''Channel status: '' @ ChannelStatus_value s)
      else initialStatus s st = statusCallback s st)"
  by (simp add: initialStatus_def statusCallback_def new_ChannelError_def)

text \<open>
  C2. The claim is that lastMessage is non-null only when the status is SUBSCRIBED, as
  the declared type of the state has it. The data-event callback does not keep to it:
  with monitoring started on a handle in status INITIAL and one data event delivered,
  the state has status INITIAL and a non-null lastMessage, outside the declared type.
\<close>

theorem lastMessage_present_in_INITIAL:
  "status (deliver_all [DataEvent mockPayload 1700000000000]
             (ChannelMonitor_startMonitoring INITIAL initial_state)) = INITIAL
   \<and> lastMessage (deliver_all [DataEvent mockPayload 1700000000000]
             (ChannelMonitor_startMonitoring INITIAL initial_state))
       = Some \<lparr>message = mockPayload, receivedAt = 1700000000000\<rparr>
   \<and> \<not> declared_shape (deliver_all [DataEvent mockPayload 1700000000000]
             (ChannelMonitor_startMonitoring INITIAL initial_state))"
  by (simp add: ChannelMonitor_startMonitoring_def initialStatus_def dataCallback_def
      initial_state_def declared_shape_def)

section \<open>Poller: one timer, failures isolated\<close>

lemma start_keeps_invariant:
  assumes "liveHandles p = (case timer p of None \<Rightarrow> [] | Some h \<Rightarrow> [h])"
    and "isRunning p = (timer p \<noteq> None)"
  shows "liveHandles (start p) = (case timer (start p) of None \<Rightarrow> [] | Some h \<Rightarrow> [h])
         \<and> isRunning (start p) = (timer (start p) \<noteq> None)"
  using assms
  by (auto simp: start_def scheduleNext_def setInterval_def liveHandles_def split: option.splits)

lemma stop_keeps_invariant:
  assumes "liveHandles p = (case timer p of None \<Rightarrow> [] | Some h \<Rightarrow> [h])"
    and "isRunning p = (timer p \<noteq> None)"
  shows "liveHandles (stop p) = (case timer (stop p) of None \<Rightarrow> [] | Some h \<Rightarrow> [h])
         \<and> isRunning (stop p) = (timer (stop p) \<noteq> None)"
proof (cases "timer p")
  case None
  then show ?thesis using assms by (simp add: stop_def)
next
  case (Some h)
  obtain i where h: "h = TimerHandle i" by (cases h)
  from assms(1) Some h obtain ms where "intervals (timerProvider p) = [(i, ms)]"
    by (auto simp: liveHandles_def)
  then show ?thesis using Some h by (simp add: stop_def liveHandles_def)
qed

lemma poller_step_keeps_invariant:
  assumes "liveHandles (fst w) = (case timer (fst w) of None \<Rightarrow> [] | Some h \<Rightarrow> [h])"
    and "isRunning (fst w) = (timer (fst w) \<noteq> None)"
  shows "liveHandles (fst (poller_step c w))
           = (case timer (fst (poller_step c w)) of None \<Rightarrow> [] | Some h \<Rightarrow> [h])
         \<and> isRunning (fst (poller_step c w)) = (timer (fst (poller_step c w)) \<noteq> None)"
proof (cases w)
  case (Pair p tr)
  then show ?thesis
    using assms start_keeps_invariant [of p] stop_keeps_invariant [of p]
    by (cases c) simp_all
qed

lemma poller_run_keeps_invariant:
  assumes "liveHandles (fst w) = (case timer (fst w) of None \<Rightarrow> [] | Some h \<Rightarrow> [h])"
    and "isRunning (fst w) = (timer (fst w) \<noteq> None)"
  shows "liveHandles (fst (poller_run cs w))
           = (case timer (fst (poller_run cs w)) of None \<Rightarrow> [] | Some h \<Rightarrow> [h])
         \<and> isRunning (fst (poller_run cs w)) = (timer (fst (poller_run cs w)) \<noteq> None)"
  using assms
proof (induction cs arbitrary: w)
  case Nil
  then show ?case by simp
next
  case (Cons c cs)
  show ?case
    using Cons.IH [of "poller_step c w"] poller_step_keeps_invariant [OF Cons.prems]
    by simp
qed

lemma new_Poller_invariant:
  "liveHandles (new_Poller config) = (case timer (new_Poller config) of None \<Rightarrow> [] | Some h \<Rightarrow> [h])"
  "isRunning (new_Poller config) = (timer (new_Poller config) \<noteq> None)"
  by (simp_all add: new_Poller_def liveHandles_def DEFAULT_TIMER_PROVIDER_def)

text \<open>
  C5. After every sequence of start() and stop() calls (and timer firings) on a new
  Poller, the timer handle is non-null exactly when isRunning is true, the provider's
  live handles are exactly that handle, so at most one; three start() calls in a row
  leave exactly one live handle, and stop() after start() leaves none.
\<close>

theorem one_timer_iff_running:
  "(timer (fst (poller_run cs (new_Poller config, tr0))) \<noteq> None)
     = isRunning (fst (poller_run cs (new_Poller config, tr0)))
   \<and> liveHandles (fst (poller_run cs (new_Poller config, tr0)))
     = (case timer (fst (poller_run cs (new_Poller config, tr0))) of None \<Rightarrow> [] | Some h \<Rightarrow> [h])
   \<and> length (liveHandles (fst (poller_run cs (new_Poller config, tr0)))) \<le> 1
   \<and> length (liveHandles (fst (poller_run [Start, Start, Start] (new_Poller config, tr0)))) = 1
   \<and> length (liveHandles (fst (poller_run [Start, Stop] (new_Poller config, tr0)))) = 0"
proof -
  let ?p = "fst (poller_run cs (new_Poller config, tr0))"
  have inv: "liveHandles ?p = (case timer ?p of None \<Rightarrow> [] | Some h \<Rightarrow> [h])
     \<and> isRunning ?p = (timer ?p \<noteq> None)"
    using poller_run_keeps_invariant [of "(new_Poller config, tr0)" cs] new_Poller_invariant [of config]
    by simp
  then have "length (liveHandles ?p) \<le> 1"
    by (simp split: option.splits)
  moreover have "length (liveHandles (fst (poller_run [Start, Start, Start] (new_Poller config, tr0)))) = 1"
    by (simp add: start_def scheduleNext_def setInterval_def liveHandles_def new_Poller_def
        DEFAULT_TIMER_PROVIDER_def)
  moreover have "length (liveHandles (fst (poller_run [Start, Stop] (new_Poller config, tr0)))) = 0"
    by (simp add: start_def stop_def scheduleNext_def setInterval_def liveHandles_def new_Poller_def
        DEFAULT_TIMER_PROVIDER_def)
  ultimately show ?thesis using inv by simp
qed

lemma poller_run_append: "poller_run (cs @ ds) w = poller_run ds (poller_run cs w)"
  by (induction cs arbitrary: w) simp_all

lemma refreshCalls_intervalCallback:
  "refreshCalls (snd (intervalCallback p tr)) = Suc (refreshCalls tr)"
  by (simp add: intervalCallback_def Let_def split: option.splits sum.splits)

lemma intervalCallback_returns: "fst (intervalCallback p tr) = None"
  by (simp add: intervalCallback_def Let_def split: option.splits sum.splits)

lemma intervalCallback_converted:
  assumes "refreshFn p (refreshCalls tr) = Some v" and "toError v = Inr err"
  shows "onErrorCalls (snd (intervalCallback p tr)) =
           (case onError p of
              None \<Rightarrow> onErrorCalls tr
            | Some callback \<Rightarrow> onErrorCalls tr @ [err])"
    and "unhandledRejections (snd (intervalCallback p tr)) =
           (case onError p of
              None \<Rightarrow> unhandledRejections tr
            | Some callback \<Rightarrow>
                (case callback err of
                   None \<Rightarrow> unhandledRejections tr
                 | Some raised \<Rightarrow> unhandledRejections tr @ [raised]))"
  using assms by (simp_all add: intervalCallback_def Let_def split: option.splits)

lemma tick_one_interval:
  "liveHandles p = [h] \<Longrightarrow> tick p tr = snd (intervalCallback p tr)"
  by (cases "intervals (timerProvider p)") (simp_all add: tick_def liveHandles_def)

text \<open>
  Whatever a refresh invocation does, a firing leaves a running Poller, reached by any
  sequence of calls, as it was: its handle is still the provider's one live handle,
  nothing is thrown to the timer, and the next firing invokes the refresh operation
  again.
\<close>

lemma refresh_failure_leaves_poller_running:
  assumes "poller_run cs (new_Poller config, tr0) = (p, tr)"
    and "isRunning p"
  shows "fst (intervalCallback p tr) = None
     \<and> poller_run (cs @ [Tick]) (new_Poller config, tr0) = (p, snd (intervalCallback p tr))
     \<and> (\<exists>h. timer p = Some h \<and> liveHandles p = [h])
     \<and> refreshCalls (snd (poller_run (cs @ [Tick, Tick]) (new_Poller config, tr0)))
         = refreshCalls tr + 2"
proof -
  have inv: "liveHandles p = (case timer p of None \<Rightarrow> [] | Some h \<Rightarrow> [h])
     \<and> isRunning p = (timer p \<noteq> None)"
    using poller_run_keeps_invariant [of "(new_Poller config, tr0)" cs]
      new_Poller_invariant [of config] assms(1)
    by simp
  with assms(2) obtain h where h: "timer p = Some h" "liveHandles p = [h]"
    by auto
  have t: "\<And>t. tick p t = snd (intervalCallback p t)"
    using tick_one_interval [OF h(2)] .
  have one: "poller_run (cs @ [Tick]) (new_Poller config, tr0) = (p, snd (intervalCallback p tr))"
    using assms(1) by (simp add: poller_run_append t)
  have two: "refreshCalls (snd (poller_run (cs @ [Tick, Tick]) (new_Poller config, tr0)))
         = refreshCalls tr + 2"
    using assms(1) by (simp add: poller_run_append t refreshCalls_intervalCallback)
  show ?thesis
    using intervalCallback_returns [of p tr] one two h by simp
qed

text \<open>
  C3. The claim is that the value of every failing refresh invocation reaches onError,
  as itself or as an Error of its string form. The catch block does not do so for a
  value that has no string form: with a refresh operation that rejects with
  \<^verbatim>\<open>Object.create(null)\<close>, the conversion throws inside the catch block, onError is
  never called and the TypeError is left as an unhandled rejection. The Poller itself
  stays running and the next firing invokes the refresh operation again.
\<close>

theorem rejection_without_string_form_not_delivered:
  "refreshFn (fst (poller_run [Start] (new_Poller rejecting_without_string_form, no_trace))) 0
     = Some (NoStringForm no_primitive_value)
   \<and> onError (fst (poller_run [Start] (new_Poller rejecting_without_string_form, no_trace)))
       \<noteq> None
   \<and> onErrorCalls (snd (poller_run [Start, Tick]
        (new_Poller rejecting_without_string_form, no_trace))) = []
   \<and> unhandledRejections (snd (poller_run [Start, Tick]
        (new_Poller rejecting_without_string_form, no_trace))) = [no_primitive_value]
   \<and> getIsRunning (fst (poller_run [Start, Tick]
        (new_Poller rejecting_without_string_form, no_trace)))
   \<and> refreshCalls (snd (poller_run [Start, Tick, Tick]
        (new_Poller rejecting_without_string_form, no_trace))) = 2"
  by (simp add: start_def scheduleNext_def setInterval_def new_Poller_def tick_def
      intervalCallback_def toError_def rejecting_without_string_form_def no_trace_def
      DEFAULT_TIMER_PROVIDER_def getIsRunning_def)

section \<open>Network monitor: starting twice\<close>

text \<open>
  C8, as the spec states it: two calls of startMonitoring() with no stopMonitoring()
  between them perform one probe and register one listener. It fails when the second
  call is made while the first still awaits its probe (two probes, two listeners, the
  first listener's unregister function lost), and when the first call's probe rejects
  (the second call probes again).
\<close>

theorem second_start_probes_again:
  "fetchCalls (netInfo (start_twice_overlapping (Resolved wifiState) (Resolved wifiState)
       new_NetworkMonitor)) = 2
   \<and> listeners (netInfo (start_twice_overlapping (Resolved wifiState) (Resolved wifiState)
       new_NetworkMonitor)) = [0, 1]
   \<and> fetchCalls (netInfo (start_twice_in_turn (Rejected (OtherValue ''probe failed''))
       (Resolved wifiState) new_NetworkMonitor)) = 2"
  by (simp add: start_twice_overlapping_def start_twice_in_turn_def NetworkMonitor_startMonitoring_def
      startMonitoring_call_def startMonitoring_resume_def new_NetworkMonitor_def fetch_def
      addEventListener_def updateState_def)

lemma startMonitoring_call_guard:
  "unsubscribe m \<noteq> None \<Longrightarrow> startMonitoring_call m = (Returned, m)"
  by (simp add: startMonitoring_call_def)

lemma unsubscribe_after_resolved_start:
  "unsubscribe (snd (NetworkMonitor_startMonitoring (Resolved s) m)) \<noteq> None"
  by (simp add: NetworkMonitor_startMonitoring_def startMonitoring_call_def
      startMonitoring_resume_def addEventListener_def updateState_def Let_def)

lemma start_when_monitoring:
  "unsubscribe m \<noteq> None \<Longrightarrow> NetworkMonitor_startMonitoring fetched m = (Inr (), m)"
  by (simp add: NetworkMonitor_startMonitoring_def startMonitoring_call_def)

text \<open>
  C8, amended: once a call of startMonitoring() has run to its end with its probe
  resolved, a further call before any stopMonitoring() is a no-op: it resolves, performs
  no probe, registers no listener and leaves the monitor as it was. Two such calls in
  turn on a new monitor perform exactly one probe and register exactly one listener,
  and the state is that of the one probe result.
\<close>

theorem second_start_after_first_is_noop:
  "NetworkMonitor_startMonitoring fetched2 (snd (NetworkMonitor_startMonitoring (Resolved s) m))
     = (Inr (), snd (NetworkMonitor_startMonitoring (Resolved s) m))
   \<and> start_twice_in_turn (Resolved s) fetched2 m = snd (NetworkMonitor_startMonitoring (Resolved s) m)
   \<and> fetchCalls (netInfo (start_twice_in_turn (Resolved s) fetched2 new_NetworkMonitor)) = 1
   \<and> length (listeners (netInfo (start_twice_in_turn (Resolved s) fetched2 new_NetworkMonitor))) = 1
   \<and> state (start_twice_in_turn (Resolved s) fetched2 new_NetworkMonitor)
       = state (updateState s new_NetworkMonitor)"
proof -
  have noop: "NetworkMonitor_startMonitoring fetched2 (snd (NetworkMonitor_startMonitoring (Resolved s) m))
     = (Inr (), snd (NetworkMonitor_startMonitoring (Resolved s) m))" for m
    using start_when_monitoring [OF unsubscribe_after_resolved_start] .
  have twice: "start_twice_in_turn (Resolved s) fetched2 m
      = snd (NetworkMonitor_startMonitoring (Resolved s) m)" for m
    by (simp add: start_twice_in_turn_def noop)
  have once: "snd (NetworkMonitor_startMonitoring (Resolved s) new_NetworkMonitor)
      = (updateState s new_NetworkMonitor)
          \<lparr>netInfo := \<lparr>fetchCalls = 1, listeners = [0], nextListener = 1\<rparr>, unsubscribe := Some 0\<rparr>"
    by (simp add: NetworkMonitor_startMonitoring_def startMonitoring_call_def
        startMonitoring_resume_def addEventListener_def updateState_def Let_def
        new_NetworkMonitor_def fetch_def)
  show ?thesis
    by (simp add: noop twice once)
qed

section \<open>Rejections of asynchronous operations\<close>

text \<open>
  C9, amended: a refresh invocation of the Poller that fails with an Error, or with a
  value that has a string form, is caught in the timer's callback: the callback throws
  nothing to the timer, the Error (the value itself, or a new Error of its string form)
  is given to onError when that callback is configured and is dropped when it is not,
  and no rejection is left unhandled but one that onError itself throws. A rejection of
  the NetworkMonitor's probe, on a monitor that is not monitoring, is not caught: the
  promise of startMonitoring rejects with it, and but for the probe made the monitor is
  as before, state and listeners included. A rejection of the unsubscription started by
  ChannelMonitor.stopMonitoring is left unhandled, and the state is unchanged.
\<close>

theorem rejections_caught_or_passed_on:
  "fst (intervalCallback p tr) = None
   \<and> toError (ErrorInstance e) = Inr e
   \<and> toError (OtherValue text) = Inr \<lparr>name = ''Error'', Error.message = text\<rparr>
   \<and> (refreshFn p (refreshCalls tr) = Some v \<and> toError v = Inr err \<longrightarrow>
        onErrorCalls (snd (intervalCallback p tr)) =
          (case onError p of
             None \<Rightarrow> onErrorCalls tr
           | Some callback \<Rightarrow> onErrorCalls tr @ [err])
        \<and> unhandledRejections (snd (intervalCallback p tr)) =
          (case onError p of
             None \<Rightarrow> unhandledRejections tr
           | Some callback \<Rightarrow>
               (case callback err of
                  None \<Rightarrow> unhandledRejections tr
                | Some raised \<Rightarrow> unhandledRejections tr @ [raised])))
   \<and> (unsubscribe m = None \<longrightarrow>
        NetworkMonitor_startMonitoring (Rejected v) m = (Inl v, m\<lparr>netInfo := fetch (netInfo m)\<rparr>)
        \<and> state (m\<lparr>netInfo := fetch (netInfo m)\<rparr>) = state m
        \<and> listeners (netInfo (m\<lparr>netInfo := fetch (netInfo m)\<rparr>)) = listeners (netInfo m))
   \<and> ChannelMonitor_stopMonitoring (Rejected v) st = (st, [v])"
  using intervalCallback_returns [of p tr] intervalCallback_converted [of p tr v err]
  by (simp add: toError_def new_Error_def NetworkMonitor_startMonitoring_def
      startMonitoring_call_def startMonitoring_resume_def ChannelMonitor_stopMonitoring_def
      fetch_def)

theorem rejections_caught_or_passed_on_witness:
  "refreshFn (new_Poller rejecting_once) (refreshCalls no_trace) = Some (OtherValue ''string error'')
   \<and> toError (OtherValue ''string error'') = Inr \<lparr>name = ''Error'', Error.message = ''string error''\<rparr>
   \<and> onErrorCalls (snd (intervalCallback (new_Poller rejecting_once) no_trace))
       = [\<lparr>name = ''Error'', Error.message = ''string error''\<rparr>]
   \<and> unhandledRejections (snd (intervalCallback (new_Poller rejecting_once) no_trace)) = []
   \<and> unsubscribe new_NetworkMonitor = None
   \<and> NetworkMonitor_startMonitoring (Rejected (OtherValue ''string error'')) new_NetworkMonitor
       = (Inl (OtherValue ''string error''),
          new_NetworkMonitor\<lparr>netInfo := \<lparr>fetchCalls = 1, listeners = [], nextListener = 0\<rparr>\<rparr>)
   \<and> ChannelMonitor_stopMonitoring (Rejected (OtherValue ''string error''))
        (statusCallback SUBSCRIBED (initial_state :: unit ChannelMonitorState))
       = (statusCallback SUBSCRIBED initial_state, [OtherValue ''string error''])"
  using rejections_caught_or_passed_on
    [where p = "new_Poller rejecting_once" and tr = no_trace
       and v = "OtherValue ''string error''"
       and err = "\<lparr>name = ''Error'', Error.message = ''string error''\<rparr>"
       and m = new_NetworkMonitor
       and st = "statusCallback SUBSCRIBED (initial_state :: unit ChannelMonitorState)"]
  by (simp add: new_Poller_def rejecting_once_def no_trace_def new_NetworkMonitor_def fetch_def
      toError_def new_Error_def)

text \<open>
  C9, as the spec states it: no rejection is left uncaught. It fails for
  ChannelMonitor.stopMonitoring, which discards the promise of unsubscribe(): when that
  promise rejects, the state is unchanged, no callback is called and the rejection is
  unhandled.
\<close>

theorem unsubscribe_rejection_left_unhandled:
  "ChannelMonitor_stopMonitoring (Rejected (OtherValue ''unsubscribe failed''))
       (statusCallback SUBSCRIBED (initial_state :: unit ChannelMonitorState))
     = (statusCallback SUBSCRIBED initial_state, [OtherValue ''unsubscribe failed''])"
  by (simp add: ChannelMonitor_stopMonitoring_def)

section \<open>Query manager: the id of an update\<close>

lemma assertNonNull_message:
  "v = JsNull \<or> v = JsUndefined \<Longrightarrow>
   \<exists>e. assertNonNull v fieldName = Inl e \<and> sublist ''must be non-null'' (Error.message e)"
proof -
  assume v: "v = JsNull \<or> v = JsUndefined"
  have "fieldName @ '' must be non-null'' = (fieldName @ '' '') @ ''must be non-null'' @ []"
    by simp
  then have "sublist ''must be non-null'' (fieldName @ '' must be non-null'')"
    unfolding sublist_def by blast
  with v show ?thesis
    by (auto simp: assertNonNull_def new_Error_def)
qed

lemma assertNonNull_passes:
  "v \<noteq> JsNull \<Longrightarrow> v \<noteq> JsUndefined \<Longrightarrow> assertNonNull v fieldName = Inr ()"
  by (simp add: assertNonNull_def)

lemma issued_issue: "issued (snd (issue supabase q w)) = issued w @ [q]"
  by (simp add: issue_def split: prod.splits)

lemma update_rejected_by_assertion:
  assumes "index input fieldId = JsNull \<or> index input fieldId = JsUndefined"
  shows "\<exists>e. SupabaseQueryManager_update supabase collection input fieldId w
              = (Inl (ErrorInstance e), w)
            \<and> sublist ''must be non-null'' (Error.message e)"
proof -
  obtain e where e: "assertNonNull (index input fieldId) (''update(): '' @ [CHR 0x27] @ fieldId @ [CHR 0x27]) = Inl e"
      "sublist ''must be non-null'' (Error.message e)"
    using assertNonNull_message [OF assms] by blast
  then show ?thesis
    by (simp add: SupabaseQueryManager_update_def Let_def)
qed

lemma update_issues_query:
  assumes "index input fieldId \<noteq> JsNull" "index input fieldId \<noteq> JsUndefined"
  shows "issued (snd (SupabaseQueryManager_update supabase collection input fieldId w))
           = issued w @ [UpdateQuery collection input fieldId (index input fieldId)]"
proof -
  let ?q = "UpdateQuery collection input fieldId (index input fieldId)"
  have ok: "assertNonNull (index input fieldId) (''update(): '' @ [CHR 0x27] @ fieldId @ [CHR 0x27]) = Inr ()"
    using assertNonNull_passes [OF assms] .
  obtain r w' where r: "issue supabase ?q w = (r, w')"
    by (cases "issue supabase ?q w")
  then have w': "issued w' = issued w @ [?q]"
    using issued_issue [of supabase ?q w] by simp
  show ?thesis
    using ok r w'
    by (simp add: SupabaseQueryManager_update_def Let_def split: settled.splits option.splits)
qed

text \<open>
  C10. When input[fieldId] is null or undefined, update rejects with an Error whose
  message contains "must be non-null", and the backend is as before: no query was
  issued. When input[fieldId] is neither, the assertion does not throw and the update
  query is issued.
\<close>

theorem update_asserts_id_before_query:
  "(index input fieldId = JsNull \<or> index input fieldId = JsUndefined \<longrightarrow>
      (\<exists>e. SupabaseQueryManager_update supabase collection input fieldId w
              = (Inl (ErrorInstance e), w)
            \<and> sublist ''must be non-null'' (Error.message e)))
   \<and> (index input fieldId \<noteq> JsNull \<and> index input fieldId \<noteq> JsUndefined \<longrightarrow>
      assertNonNull (index input fieldId) fieldName = Inr ()
      \<and> issued (snd (SupabaseQueryManager_update supabase collection input fieldId w))
          = issued w @ [UpdateQuery collection input fieldId (index input fieldId)])"
  using update_rejected_by_assertion [of input fieldId supabase collection w]
    update_issues_query [of input fieldId supabase collection w]
    assertNonNull_passes [of "index input fieldId" fieldName]
  by blast

theorem update_asserts_id_before_query_witness:
  "index [(''name'', JsString ''Alice Updated'')] ''id'' = JsUndefined
   \<and> (\<exists>e. SupabaseQueryManager_update echo_client ''users''
              [(''name'', JsString ''Alice Updated'')] ''id'' no_queries
            = (Inl (ErrorInstance e), no_queries)
          \<and> sublist ''must be non-null'' (Error.message e))
   \<and> index [(''id'', JsString ''1''), (''name'', JsString ''Alice Updated'')] ''id'' = JsString ''1''
   \<and> issued (snd (SupabaseQueryManager_update echo_client ''users''
              [(''id'', JsString ''1''), (''name'', JsString ''Alice Updated'')] ''id'' no_queries))
       = [UpdateQuery ''users'' [(''id'', JsString ''1''), (''name'', JsString ''Alice Updated'')]
            ''id'' (JsString ''1'')]"
proof -
  have absent: "index [(''name'', JsString ''Alice Updated'')] ''id'' = JsUndefined"
    by (simp add: index_def)
  have present: "index [(''id'', JsString ''1''), (''name'', JsString ''Alice Updated'')] ''id''
      = JsString ''1''"
    by (simp add: index_def)
  show ?thesis
    using update_asserts_id_before_query
        [of "[(''name'', JsString ''Alice Updated'')]" "''id''" echo_client "''users''" no_queries]
      update_asserts_id_before_query
        [of "[(''id'', JsString ''1''), (''name'', JsString ''Alice Updated'')]" "''id''"
            echo_client "''users''" no_queries]
    by (simp add: absent present no_queries_def)
qed

end
